theory Spec2Isabelle
  imports Main "HOL-Library.Sublist"
begin

section \<open>Strings\<close>

text \<open>
  A string is the list of its code units. The type \<^typ>\<open>char\<close> holds the code units
  below 256; among them ECMAScript's WhiteSpace and LineTerminator characters are
  TAB, LF, VT, FF, CR, SPACE and NO-BREAK SPACE. \<open>String.prototype.trim\<close> strips
  them from both ends.
\<close>

definition is_whitespace :: "char \<Rightarrow> bool" where
  "is_whitespace c = (of_char c \<in> {9, 10, 11, 12, 13, 32, 160 :: nat})"

definition trim :: "string \<Rightarrow> string" where
  "trim s = rev (dropWhile is_whitespace (rev (dropWhile is_whitespace s)))"

text \<open>\<open>toLowerCase\<close> on the same range: A-Z and the upper-case Latin-1 letters.\<close>

definition lower_char :: "char \<Rightarrow> char" where
  "lower_char c =
     (let n = (of_char c :: nat)
      in if (65 \<le> n \<and> n \<le> 90) \<or> (192 \<le> n \<and> n \<le> 222 \<and> n \<noteq> 215)
         then char_of (n + 32) else c)"

definition toLowerCase :: "string \<Rightarrow> string" where
  "toLowerCase s = map lower_char s"

text \<open>\<open>s.includes(t)\<close>: \<open>t\<close> occurs in \<open>s\<close> as a contiguous run.\<close>

fun includes_str :: "string \<Rightarrow> string \<Rightarrow> bool" where
  "includes_str [] t = (t = [])"
| "includes_str (c # cs) t = (take (length t) (c # cs) = t \<or> includes_str cs t)"

text \<open>Decimal rendering of a non-negative integer, as a template literal prints it.\<close>

definition digit_char :: "nat \<Rightarrow> char" where
  "digit_char d = ''0123456789'' ! (d mod 10)"

fun show_nat :: "nat \<Rightarrow> string" where
  "show_nat n = (if n < 10 then [digit_char n] else show_nat (n div 10) @ [digit_char n])"

declare show_nat.simps [simp del]

section \<open>Data model (src/frontend/src/types/index.ts)\<close>

record ProfessorInfo =
  name :: string
  title :: string
  position :: string
  research_interests :: "string list"
  location :: string
  email :: "string option"
  phone :: "string option"
  personal_website :: "string option"
  google_scholar :: "string option"

record ProfessorRecommendationResponse =
  recommendations :: "ProfessorInfo list"
  match_count :: int

record ResearchAreasResponse =
  research_areas :: "string list"
  count :: int

record UserInfo =
  name :: string
  major :: string
  research_interests :: "string list"
  skills :: "string list"

section \<open>The form (src/frontend/src/components/UserInfoForm.tsx)\<close>

text \<open>The component's state hooks, in declaration order.\<close>

record UserInfoForm =
  formData :: UserInfo
  currentInterest :: string
  currentSkill :: string
  availableResearchAreas :: "string list"
  filteredResearchAreas :: "string list"
  showResearchDropdown :: bool
  loadingResearchAreas :: bool

definition initialForm :: UserInfoForm where
  "initialForm =
     \<lparr>formData = \<lparr>name = [], major = [], research_interests = [], skills = []\<rparr>,
      currentInterest = [], currentSkill = [],
      availableResearchAreas = [], filteredResearchAreas = [],
      showResearchDropdown = False, loadingResearchAreas = True\<rparr>"

definition fallbackAreas :: "string list" where
  "fallbackAreas =
     [''Artificial Intelligence'', ''Machine Learning'', ''Data Science'',
      ''Computer Vision'', ''Natural Language Processing'', ''Cybersecurity'',
      ''Software Engineering'', ''Human-Computer Interaction'', ''Robotics'',
      ''Computer Networks'']"

text \<open>
  The mount effect \<open>fetchResearchAreas\<close>, given how \<open>apiService.getResearchAreas()\<close>
  settled: \<open>Inr\<close> the response, \<open>Inl\<close> whatever was thrown. The second component is
  what went to \<open>console.error\<close>; nothing else leaves the function.
\<close>

definition fetchResearchAreas ::
  "UserInfoForm \<Rightarrow> 'e + ResearchAreasResponse \<Rightarrow> UserInfoForm \<times> (string \<times> 'e) list" where
  "fetchResearchAreas f settled =
     (case settled of
        Inr response \<Rightarrow>
          (f\<lparr>availableResearchAreas := research_areas response,
             filteredResearchAreas := research_areas response,
             loadingResearchAreas := False\<rparr>, [])
      | Inl err \<Rightarrow>
          (f\<lparr>availableResearchAreas := fallbackAreas,
             filteredResearchAreas := fallbackAreas,
             loadingResearchAreas := False\<rparr>,
           [(''Failed to fetch research areas:'', err)]))"

definition filterResearchAreas :: "UserInfoForm \<Rightarrow> string \<Rightarrow> UserInfoForm" where
  "filterResearchAreas f input =
     (if trim input = [] then f\<lparr>filteredResearchAreas := availableResearchAreas f\<rparr>
      else f\<lparr>filteredResearchAreas :=
               filter (\<lambda>area. includes_str (toLowerCase area) (toLowerCase input))
                 (availableResearchAreas f)\<rparr>)"

text \<open>\<open>handleInputChange\<close> is called for the two text fields only.\<close>

datatype field = Name | Major

definition handleInputChange :: "UserInfoForm \<Rightarrow> field \<Rightarrow> string \<Rightarrow> UserInfoForm" where
  "handleInputChange f fld v =
     (case fld of
        Name \<Rightarrow> f\<lparr>formData := (formData f)\<lparr>name := v\<rparr>\<rparr>
      | Major \<Rightarrow> f\<lparr>formData := (formData f)\<lparr>major := v\<rparr>\<rparr>)"

text \<open>
  \<open>addResearchInterest(interest?)\<close>: the argument is absent (\<open>None\<close>) from the Add
  button and the Enter key, and the clicked area from the dropdown; \<open>||\<close> falls back to
  the typed text when the argument is absent or empty.
\<close>

definition interestToAdd :: "UserInfoForm \<Rightarrow> string option \<Rightarrow> string" where
  "interestToAdd f interest =
     (case interest of
        Some i \<Rightarrow> if i \<noteq> [] then i else currentInterest f
      | None \<Rightarrow> currentInterest f)"

definition addResearchInterest :: "UserInfoForm \<Rightarrow> string option \<Rightarrow> UserInfoForm" where
  "addResearchInterest f interest =
     (if trim (interestToAdd f interest) \<noteq> []
         \<and> trim (interestToAdd f interest) \<notin> set (research_interests (formData f))
      then f\<lparr>formData := (formData f)\<lparr>research_interests :=
                 research_interests (formData f) @ [trim (interestToAdd f interest)]\<rparr>,
             currentInterest := [],
             showResearchDropdown := False\<rparr>
      else f)"

definition handleResearchInputChange :: "UserInfoForm \<Rightarrow> string \<Rightarrow> UserInfoForm" where
  "handleResearchInputChange f v =
     (filterResearchAreas (f\<lparr>currentInterest := v\<rparr>) v)\<lparr>showResearchDropdown := True\<rparr>"

definition removeResearchInterest :: "UserInfoForm \<Rightarrow> string \<Rightarrow> UserInfoForm" where
  "removeResearchInterest f interest =
     f\<lparr>formData := (formData f)\<lparr>research_interests :=
          filter (\<lambda>i. i \<noteq> interest) (research_interests (formData f))\<rparr>\<rparr>"

definition setCurrentSkill :: "UserInfoForm \<Rightarrow> string \<Rightarrow> UserInfoForm" where
  "setCurrentSkill f v = f\<lparr>currentSkill := v\<rparr>"

definition addSkill :: "UserInfoForm \<Rightarrow> UserInfoForm" where
  "addSkill f =
     (if trim (currentSkill f) \<noteq> [] \<and> trim (currentSkill f) \<notin> set (skills (formData f))
      then f\<lparr>formData := (formData f)\<lparr>skills :=
                 skills (formData f) @ [trim (currentSkill f)]\<rparr>,
             currentSkill := []\<rparr>
      else f)"

definition removeSkill :: "UserInfoForm \<Rightarrow> string \<Rightarrow> UserInfoForm" where
  "removeSkill f skill =
     f\<lparr>formData := (formData f)\<lparr>skills :=
          filter (\<lambda>s. s \<noteq> skill) (skills (formData f))\<rparr>\<rparr>"

text \<open>
  \<open>handleSubmit\<close>: the value is the argument \<open>onSubmit\<close> was called with, \<open>None\<close> when
  it was not called. A string is truthy exactly when it is not empty.
\<close>

definition handleSubmit :: "UserInfoForm \<Rightarrow> UserInfo option" where
  "handleSubmit f =
     (if name (formData f) \<noteq> [] \<and> major (formData f) \<noteq> [] then Some (formData f)
      else None)"

definition isFormValid :: "UserInfoForm \<Rightarrow> bool" where
  "isFormValid f = (name (formData f) \<noteq> [] \<and> major (formData f) \<noteq> [])"

text \<open>What the JSX disables while the areas are loading or nothing is typed.\<close>

definition interestInputDisabled :: "UserInfoForm \<Rightarrow> bool" where
  "interestInputDisabled f = loadingResearchAreas f"

definition addInterestDisabled :: "UserInfoForm \<Rightarrow> bool" where
  "addInterestDisabled f = (trim (currentInterest f) = [] \<or> loadingResearchAreas f)"

text \<open>The user's actions on the form, each bound to its handler.\<close>

datatype form_event =
    InputChange field string
  | ResearchInput string
  | AddInterest "string option"
  | RemoveInterest string
  | SkillInput string
  | AddSkill
  | RemoveSkill string

fun form_step :: "UserInfoForm \<Rightarrow> form_event \<Rightarrow> UserInfoForm" where
  "form_step f (InputChange fld v) = handleInputChange f fld v"
| "form_step f (ResearchInput v) = handleResearchInputChange f v"
| "form_step f (AddInterest i) = addResearchInterest f i"
| "form_step f (RemoveInterest i) = removeResearchInterest f i"
| "form_step f (SkillInput v) = setCurrentSkill f v"
| "form_step f AddSkill = addSkill f"
| "form_step f (RemoveSkill s) = removeSkill f s"

definition form_run :: "UserInfoForm \<Rightarrow> form_event list \<Rightarrow> UserInfoForm" where
  "form_run f es = foldl form_step f es"

text \<open>A well-kept tag list: no duplicates, every tag non-empty and already trimmed.\<close>

definition tags_ok :: "string list \<Rightarrow> bool" where
  "tags_ok xs = (distinct xs \<and> (\<forall>x \<in> set xs. x \<noteq> [] \<and> trim x = x))"

section \<open>The API client (src/frontend/src/services/api.ts)\<close>

text \<open>
  A parsed JSON value. No modelled code computes with a number read from a body, so
  integers stand for the numbers. An object is the list of its properties.
\<close>

datatype json =
    JNull
  | JBool bool
  | JNumber int
  | JString string
  | JArray "json list"
  | JObject "(string \<times> json) list"

text \<open>
  A response as \<open>fetch\<close> resolves it: the status code and what \<open>response.json()\<close>
  gives, \<open>None\<close> when the body does not parse and \<open>json()\<close> rejects.
\<close>

record Response =
  status :: nat
  body :: "json option"

definition ok :: "Response \<Rightarrow> bool" where
  "ok r = (200 \<le> status r \<and> status r \<le> 299)"

text \<open>
  What a call rejects with. \<open>JsError m\<close> is \<open>new Error(...)\<close> with message \<open>m\<close>;
  \<open>JsErrorOf v\<close> is \<open>new Error(v)\<close> for a \<open>v\<close> that is not a string, whose message is
  the runtime's string conversion of \<open>v\<close>; the other two are the runtime's own errors.
\<close>

datatype rejection = JsError string | JsErrorOf json | JsTypeError | JsSyntaxError

text \<open>
  \<open>throw new Error(errorData.detail)\<close>: reading a property of \<open>null\<close> throws a
  TypeError, a missing property is \<open>undefined\<close>, and \<open>new Error(undefined)\<close> has the
  empty message.
\<close>

fun throw_detail :: "json \<Rightarrow> rejection" where
  "throw_detail JNull = JsTypeError"
| "throw_detail (JObject props) =
     (case map_of props ''detail'' of
        None \<Rightarrow> JsError []
      | Some (JString d) \<Rightarrow> JsError d
      | Some v \<Rightarrow> JsErrorOf v)"
| "throw_detail _ = JsError []"

definition handleResponse :: "Response \<Rightarrow> rejection + json" where
  "handleResponse response =
     (if \<not> ok response then
        (let errorData =
               (case body response of
                  Some j \<Rightarrow> j
                | None \<Rightarrow>
                    JObject [(''detail'',
                      JString (''HTTP error! status: '' @ show_nat (status response)))])
         in Inl (throw_detail errorData))
      else (case body response of Some j \<Rightarrow> Inr j | None \<Rightarrow> Inl JsSyntaxError))"

text \<open>
  The requests. The path is relative to \<open>API_BASE_URL\<close>; the query is the list of
  parameters before URL encoding, the payload the value given to \<open>JSON.stringify\<close>.
\<close>

record request =
  verb :: string
  path :: string
  query :: "(string \<times> string) list"
  payload :: "json option"

definition userInfo_json :: "UserInfo \<Rightarrow> json" where
  "userInfo_json u =
     JObject [(''name'', JString (name u)), (''major'', JString (major u)),
              (''research_interests'', JArray (map JString (research_interests u))),
              (''skills'', JArray (map JString (skills u)))]"

definition param :: "string \<Rightarrow> string option \<Rightarrow> (string \<times> string) list" where
  "param k v = (case v of Some s \<Rightarrow> if s \<noteq> [] then [(k, s)] else [] | None \<Rightarrow> [])"

datatype api_method =
    createUser UserInfo
  | getUser nat
  | getProfessorRecommendations UserInfo
  | searchProfessors "string option" "string option" "string option"
  | getAllProfessors nat nat
  | healthCheck
  | getResearchAreas

fun request_of :: "api_method \<Rightarrow> request" where
  "request_of (createUser u) =
     \<lparr>verb = ''POST'', path = ''/user_info'', query = [], payload = Some (userInfo_json u)\<rparr>"
| "request_of (getUser userId) =
     \<lparr>verb = ''GET'', path = ''/user_info/'' @ show_nat userId, query = [], payload = None\<rparr>"
| "request_of (getProfessorRecommendations u) =
     \<lparr>verb = ''POST'', path = ''/prof_info'', query = [],
      payload = Some (JObject [(''user_info'', userInfo_json u)])\<rparr>"
| "request_of (searchProfessors research_area loc nm) =
     \<lparr>verb = ''GET'', path = ''/professors/search'',
      query = param ''research_area'' research_area @ param ''location'' loc @ param ''name'' nm,
      payload = None\<rparr>"
| "request_of (getAllProfessors limit offset) =
     \<lparr>verb = ''GET'', path = ''/professors'',
      query = [(''limit'', show_nat limit), (''offset'', show_nat offset)], payload = None\<rparr>"
| "request_of healthCheck = \<lparr>verb = ''GET'', path = ''/'', query = [], payload = None\<rparr>"
| "request_of getResearchAreas =
     \<lparr>verb = ''GET'', path = ''/research-areas'', query = [], payload = None\<rparr>"

text \<open>
  Every method awaits \<open>fetch\<close> and hands the response to \<open>handleResponse\<close>; a
  rejection of \<open>fetch\<close> itself passes through.
\<close>

definition api_call ::
  "(request \<Rightarrow> rejection + Response) \<Rightarrow> api_method \<Rightarrow> rejection + json" where
  "api_call fetch m =
     (case fetch (request_of m) of
        Inl e \<Rightarrow> Inl e
      | Inr response \<Rightarrow> handleResponse response)"

section \<open>The result display (ProfessorDisplay, src/unnamed/part_000)\<close>

text \<open>The two handlers the orchestrator passes as \<open>onBack\<close>.\<close>

datatype action = HandleBack | HandleRetry

text \<open>An optional string in a JSX condition: shown when present and not empty.\<close>

definition shown :: "string option \<Rightarrow> string option" where
  "shown v = (case v of Some s \<Rightarrow> if s \<noteq> [] then Some s else None | None \<Rightarrow> None)"

record card =
  card_name :: string
  card_title :: string
  card_position :: string
  interest_tags :: "string list"
  more_tag :: "string option"
  card_location :: string
  email_href :: "string option"
  phone_href :: "string option"
  website_href :: "string option"
  scholar_href :: "string option"
  contact_button :: "string option"
  profile_button :: "string option"

definition professor_card :: "ProfessorInfo \<Rightarrow> card" where
  "professor_card professor =
     \<lparr>card_name = ProfessorInfo.name professor,
      card_title = title professor,
      card_position = position professor,
      interest_tags = take 5 (ProfessorInfo.research_interests professor),
      more_tag =
        (if length (ProfessorInfo.research_interests professor) > 5
         then Some (''+'' @ show_nat (length (ProfessorInfo.research_interests professor) - 5)
                      @ '' more'')
         else None),
      card_location = location professor,
      email_href = map_option (\<lambda>e. ''mailto:'' @ e) (shown (email professor)),
      phone_href = map_option (\<lambda>p. ''tel:'' @ p) (shown (phone professor)),
      website_href = shown (personal_website professor),
      scholar_href = shown (google_scholar professor),
      contact_button =
        map_option (\<lambda>e. ''mailto:'' @ e @ ''?subject=Research Opportunity Inquiry'')
          (shown (email professor)),
      profile_button = shown (personal_website professor)\<rparr>"

text \<open>
  What is on the page. Each view but the form and the spinner carries the handler of its
  one back button, when \<open>onBack\<close> was passed; the cards come with the count their
  header prints.
\<close>

datatype view =
    FormView
  | LoadingView
  | ErrorView string "action option"
  | NoResultsView "action option"
  | CardsView nat "card list" "action option"

definition ProfessorDisplay ::
  "ProfessorInfo list \<Rightarrow> bool \<Rightarrow> string option \<Rightarrow> action option \<Rightarrow> view" where
  "ProfessorDisplay profs loading err onBack =
     (if loading then LoadingView
      else case shown err of
        Some e \<Rightarrow> ErrorView e onBack
      | None \<Rightarrow>
          if length profs = 0 then NoResultsView onBack
          else CardsView (length profs) (map professor_card profs) onBack)"

fun cards_of :: "view \<Rightarrow> card list" where
  "cards_of (CardsView n cs b) = cs"
| "cards_of _ = []"

fun back_button :: "view \<Rightarrow> action option" where
  "back_button (ErrorView e b) = b"
| "back_button (NoResultsView b) = b"
| "back_button (CardsView n cs b) = b"
| "back_button _ = None"

section \<open>The orchestrator (App, second part of src/frontend/src/types/index.ts)\<close>

datatype AppState = Form | Loading | Results | Error

record App =
  state :: AppState
  professors :: "ProfessorInfo list"
  error :: string
  userInfo :: "UserInfo option"

definition initialApp :: App where
  "initialApp = \<lparr>state = Form, professors = [], error = [], userInfo = None\<rparr>"

text \<open>What the \<open>catch\<close> receives: an \<open>Error\<close> instance with its message, or anything else.\<close>

datatype thrown = ErrorInstance string | NonError

text \<open>
  \<open>handleUserSubmit\<close> runs up to its \<open>await\<close>, issuing one call of
  \<open>getProfessorRecommendations\<close> (the second component lists the calls issued), and
  resumes when that call settles.
\<close>

definition handleUserSubmit_begin :: "App \<Rightarrow> UserInfo \<Rightarrow> App \<times> UserInfo list" where
  "handleUserSubmit_begin a userData =
     (a\<lparr>state := Loading, error := [], userInfo := Some userData\<rparr>, [userData])"

definition handleUserSubmit_resume ::
  "App \<Rightarrow> thrown + ProfessorRecommendationResponse \<Rightarrow> App" where
  "handleUserSubmit_resume a settled =
     (case settled of
        Inr response \<Rightarrow>
          if length (recommendations response) = 0
          then a\<lparr>professors := [], state := Results\<rparr>
          else a\<lparr>professors := recommendations response, state := Results\<rparr>
      | Inl err \<Rightarrow>
          a\<lparr>error := (case err of ErrorInstance m \<Rightarrow> m
                                 | NonError \<Rightarrow> ''An unexpected error occurred''),
            state := Error\<rparr>)"

definition handleBack :: "App \<Rightarrow> App \<times> UserInfo list" where
  "handleBack a = (a\<lparr>state := Form, error := [], professors := []\<rparr>, [])"

definition handleRetry :: "App \<Rightarrow> App \<times> UserInfo list" where
  "handleRetry a =
     (case userInfo a of
        Some u \<Rightarrow> handleUserSubmit_begin a u
      | None \<Rightarrow> (a\<lparr>state := Form\<rparr>, []))"

definition render :: "App \<Rightarrow> view" where
  "render a =
     (case state a of
        Form \<Rightarrow> FormView
      | Loading \<Rightarrow> ProfessorDisplay [] True None (Some HandleBack)
      | Results \<Rightarrow> ProfessorDisplay (professors a) False None (Some HandleBack)
      | Error \<Rightarrow> ProfessorDisplay [] False (Some (error a)) (Some HandleRetry))"

text \<open>
  The page with its calls of \<open>getProfessorRecommendations\<close> in flight (the form's own
  fetch of the research areas is not among them). An event is a submission from the form
  on the page, the settling of the oldest such call, or a click on the back button of the
  view on the page; \<open>None\<close> when the event cannot happen there.
\<close>

type_synonym config = "App \<times> UserInfo list"

datatype app_event =
    Submit UserInfo
  | Settled "thrown + ProfessorRecommendationResponse"
  | Click

fun app_step :: "config \<Rightarrow> app_event \<Rightarrow> config option" where
  "app_step (a, inflight) (Submit u) =
     (if render a = FormView
      then (case handleUserSubmit_begin a u of (a', calls) \<Rightarrow> Some (a', inflight @ calls))
      else None)"
| "app_step (a, inflight) (Settled s) =
     (if inflight \<noteq> [] then Some (handleUserSubmit_resume a s, tl inflight) else None)"
| "app_step (a, inflight) Click =
     (case back_button (render a) of
        Some HandleBack \<Rightarrow>
          (case handleBack a of (a', calls) \<Rightarrow> Some (a', inflight @ calls))
      | Some HandleRetry \<Rightarrow>
          (case handleRetry a of (a', calls) \<Rightarrow> Some (a', inflight @ calls))
      | None \<Rightarrow> None)"

fun app_run :: "config \<Rightarrow> app_event list \<Rightarrow> config option" where
  "app_run c [] = Some c"
| "app_run c (e # es) = (case app_step c e of Some c' \<Rightarrow> app_run c' es | None \<Rightarrow> None)"

text \<open>The transition table as the specification lists it.\<close>

definition spec_transition :: "AppState \<Rightarrow> app_event \<Rightarrow> AppState \<Rightarrow> bool" where
  "spec_transition s e s' =
     (case (s, e, s') of
        (Form, Submit u, Loading) \<Rightarrow> True
      | (Loading, Settled (Inr r), Results) \<Rightarrow> True
      | (Loading, Settled (Inl x), Error) \<Rightarrow> True
      | (Results, Click, Form) \<Rightarrow> True
      | (Error, Click, Form) \<Rightarrow> True
      | _ \<Rightarrow> False)"

text \<open>The table the handlers implement: retry leaves the error state for loading.\<close>

definition app_transition :: "AppState \<Rightarrow> app_event \<Rightarrow> AppState \<Rightarrow> bool" where
  "app_transition s e s' =
     (case (s, e, s') of
        (Form, Submit u, Loading) \<Rightarrow> True
      | (Loading, Settled (Inr r), Results) \<Rightarrow> True
      | (Loading, Settled (Inl x), Error) \<Rightarrow> True
      | (Results, Click, Form) \<Rightarrow> True
      | (Error, Click, Loading) \<Rightarrow> True
      | _ \<Rightarrow> False)"

text \<open>
  What holds of the page and its recommendation calls throughout: such a call is in
  flight exactly in the loading state, and then only one; once submitted, the submission
  stays stored.
\<close>

definition app_inv :: "config \<Rightarrow> bool" where
  "app_inv c =
     (case c of (a, inflight) \<Rightarrow>
        length inflight = (if state a = Loading then 1 else 0)
        \<and> (state a \<noteq> Form \<longrightarrow> userInfo a \<noteq> None))"

section \<open>Sample data\<close>

definition ann :: UserInfo where
  "ann = \<lparr>name = ''Ann'', major = ''Computer Science'',
          research_interests = [''Machine Learning''], skills = []\<rparr>"

definition prof_many :: ProfessorInfo where
  "prof_many =
     \<lparr>ProfessorInfo.name = ''Ada'', title = ''Professor'', position = ''Faculty'',
      ProfessorInfo.research_interests = [''a'', ''b'', ''c'', ''d'', ''e'', ''f'', ''g''],
      location = ''Boston'', email = Some ''ada@example.edu'', phone = None,
      personal_website = None, google_scholar = None\<rparr>"

definition prof_few :: ProfessorInfo where
  "prof_few =
     \<lparr>ProfessorInfo.name = ''Bob'', title = ''Associate Professor'', position = ''Faculty'',
      ProfessorInfo.research_interests = [''Machine Learning''],
      location = ''Boston'', email = None, phone = None,
      personal_website = Some [], google_scholar = None\<rparr>"

definition failed_app :: App where
  "failed_app =
     \<lparr>state = Error, professors = [], error = ''bad input'', userInfo = Some ann\<rparr>"

definition fresh_error_app :: App where
  "fresh_error_app =
     \<lparr>state = Error, professors = [], error = ''bad input'', userInfo = None\<rparr>"

definition two_professors :: ProfessorRecommendationResponse where
  "two_professors = \<lparr>recommendations = [prof_many, prof_few], match_count = 2\<rparr>"

definition zero_count_one_professor :: ProfessorRecommendationResponse where
  "zero_count_one_professor = \<lparr>recommendations = [prof_few], match_count = 0\<rparr>"

definition sample_form :: UserInfoForm where
  "sample_form =
     form_run initialForm
       [AddInterest (Some ''Robotics''), SkillInput ''Python'', AddSkill,
        ResearchInput ''   '', SkillInput '' Python '']"

section \<open>Properties: tag lists\<close>

lemma rtrim_keeps_ltrim:
  assumes "ys = [] \<or> \<not> P (hd ys)"
  shows "dropWhile P (rev (dropWhile P (rev ys))) = rev (dropWhile P (rev ys))"
proof -
  define zs where "zs = rev (dropWhile P (rev ys))"
  have "rev (takeWhile P (rev ys) @ dropWhile P (rev ys)) = rev (rev ys)"
    by (simp only: takeWhile_dropWhile_id)
  then have "ys = zs @ rev (takeWhile P (rev ys))"
    by (simp only: rev_append rev_rev_ident zs_def)
  then obtain ws where split: "ys = zs @ ws" ..
  have "zs = [] \<or> \<not> P (hd zs)"
  proof (cases zs)
    case Nil
    then show ?thesis by simp
  next
    case (Cons z zs')
    with split have "hd ys = hd zs" and "ys \<noteq> []" by auto
    with assms show ?thesis by simp
  qed
  then have "dropWhile P zs = zs" by (simp add: dropWhile_eq_self_iff)
  then show ?thesis by (simp add: zs_def)
qed

lemma trim_idem: "trim (trim s) = trim s"
proof -
  let ?ys = "dropWhile is_whitespace s"
  have "?ys = [] \<or> \<not> is_whitespace (hd ?ys)"
    by (cases "?ys = []") (auto simp: hd_dropWhile)
  then have "dropWhile is_whitespace (trim s) = trim s"
    unfolding trim_def by (rule rtrim_keeps_ltrim)
  then show ?thesis by (simp add: trim_def)
qed

lemma tags_ok_append:
  "tags_ok xs \<Longrightarrow> trim c \<noteq> [] \<Longrightarrow> trim c \<notin> set xs \<Longrightarrow> tags_ok (xs @ [trim c])"
  by (auto simp: tags_ok_def trim_idem)

lemma tags_ok_filter: "tags_ok xs \<Longrightarrow> tags_ok (filter P xs)"
  by (auto simp: tags_ok_def)

lemma form_step_tags_ok:
  "tags_ok (research_interests (formData f)) \<and> tags_ok (skills (formData f)) \<Longrightarrow>
   tags_ok (research_interests (formData (form_step f e)))
   \<and> tags_ok (skills (formData (form_step f e)))"
  by (cases e)
    (auto simp: handleInputChange_def handleResearchInputChange_def filterResearchAreas_def
      addResearchInterest_def removeResearchInterest_def setCurrentSkill_def addSkill_def
      removeSkill_def tags_ok_append tags_ok_filter split: field.splits)

lemma foldl_form_step_tags_ok:
  "tags_ok (research_interests (formData f)) \<and> tags_ok (skills (formData f)) \<Longrightarrow>
   tags_ok (research_interests (formData (foldl form_step f es)))
   \<and> tags_ok (skills (formData (foldl form_step f es)))"
proof (induction es arbitrary: f)
  case Nil
  then show ?case by simp
next
  case (Cons e es)
  from Cons.prems
  have "tags_ok (research_interests (formData (form_step f e)))
        \<and> tags_ok (skills (formData (form_step f e)))"
    by (rule form_step_tags_ok)
  then show ?case using Cons.IH by simp
qed

text \<open>
  C9. Whatever the user does on the form, starting from the empty form, the research
  interests and the skills each hold only non-empty, already trimmed tags, none of them
  twice.
\<close>

theorem tag_lists_stay_clean:
  "tags_ok (research_interests (formData (form_run initialForm es)))
   \<and> tags_ok (skills (formData (form_run initialForm es)))"
  unfolding form_run_def
  by (rule foldl_form_step_tags_ok) (simp add: initialForm_def tags_ok_def)

theorem tag_lists_stay_clean_witness:
  "tags_ok [''robotics''] \<and> tags_ok [''Python''] \<and>
   research_interests (formData (form_run initialForm
          [ResearchInput ''  Robotics '', AddInterest None, AddInterest (Some ''Robotics''),
           AddInterest (Some ''robotics''), SkillInput ''Python'', AddSkill,
           SkillInput '' Python'', AddSkill, RemoveInterest ''Robotics''])) = [''robotics''] \<and>
   skills (formData (form_run initialForm
          [ResearchInput ''  Robotics '', AddInterest None, AddInterest (Some ''Robotics''),
           AddInterest (Some ''robotics''), SkillInput ''Python'', AddSkill,
           SkillInput '' Python'', AddSkill, RemoveInterest ''Robotics''])) = [''Python'']"
proof -
  have run: "form_run initialForm
          [ResearchInput ''  Robotics '', AddInterest None, AddInterest (Some ''Robotics''),
           AddInterest (Some ''robotics''), SkillInput ''Python'', AddSkill,
           SkillInput '' Python'', AddSkill, RemoveInterest ''Robotics''] =
     \<lparr>formData = \<lparr>name = [], major = [], research_interests = [''robotics''], skills = [''Python'']\<rparr>,
      currentInterest = [], currentSkill = '' Python'',
      availableResearchAreas = [], filteredResearchAreas = [],
      showResearchDropdown = False, loadingResearchAreas = True\<rparr>"
    by (simp add: form_run_def initialForm_def handleResearchInputChange_def
        filterResearchAreas_def addResearchInterest_def interestToAdd_def
        removeResearchInterest_def setCurrentSkill_def addSkill_def trim_def is_whitespace_def)
  show ?thesis
    using tag_lists_stay_clean [of "[ResearchInput ''  Robotics '', AddInterest None, AddInterest (Some ''Robotics''),
           AddInterest (Some ''robotics''), SkillInput ''Python'', AddSkill,
           SkillInput '' Python'', AddSkill, RemoveInterest ''Robotics'']"]
    by (simp add: run)
qed

section \<open>Properties: the form\<close>

text \<open>
  C4. Submitting the form calls \<open>onSubmit\<close> only when both the name and the major are
  non-empty, and then with the form data; when either is the empty string the callback is
  not called.
\<close>

theorem submit_needs_name_and_major:
  "(name (formData f) = [] \<or> major (formData f) = [] \<longrightarrow> handleSubmit f = None)
   \<and> (name (formData f) \<noteq> [] \<and> major (formData f) \<noteq> [] \<longrightarrow>
        handleSubmit f = Some (formData f))
   \<and> isFormValid f = (handleSubmit f \<noteq> None)"
  by (simp add: handleSubmit_def isFormValid_def)

theorem submit_needs_name_and_major_witness:
  "handleSubmit (form_run initialForm [InputChange Name ''Ann'']) = None
   \<and> handleSubmit (form_run initialForm [InputChange Major ''Computer Science'']) = None
   \<and> handleSubmit (form_run initialForm
         [InputChange Name ''Ann'', InputChange Major ''Computer Science'',
          AddInterest (Some ''Machine Learning'')]) = Some ann"
proof -
  have blank_major:
    "major (formData (form_run initialForm [InputChange Name ''Ann''])) = []"
    by (simp add: form_run_def initialForm_def handleInputChange_def)
  have blank_name:
    "name (formData (form_run initialForm [InputChange Major ''Computer Science''])) = []"
    by (simp add: form_run_def initialForm_def handleInputChange_def)
  have filled:
    "formData (form_run initialForm
         [InputChange Name ''Ann'', InputChange Major ''Computer Science'',
          AddInterest (Some ''Machine Learning'')]) = ann"
    by (simp add: form_run_def initialForm_def handleInputChange_def addResearchInterest_def
        interestToAdd_def trim_def is_whitespace_def ann_def)
  show ?thesis
    using submit_needs_name_and_major [of "form_run initialForm [InputChange Name ''Ann'']"]
      submit_needs_name_and_major
        [of "form_run initialForm [InputChange Major ''Computer Science'']"]
      submit_needs_name_and_major
        [of "form_run initialForm
         [InputChange Name ''Ann'', InputChange Major ''Computer Science'',
          AddInterest (Some ''Machine Learning'')]"]
    by (simp add: blank_major blank_name filled ann_def)
qed

text \<open>
  C5. Adding a research interest or a skill leaves the whole form unchanged when the
  trimmed candidate is empty or is already in the list, compared by exact string
  equality.
\<close>

theorem add_tag_noop:
  "(trim (interestToAdd f i) = []
      \<or> trim (interestToAdd f i) \<in> set (research_interests (formData f))
    \<longrightarrow> addResearchInterest f i = f)
   \<and> (trim (currentSkill f) = [] \<or> trim (currentSkill f) \<in> set (skills (formData f))
    \<longrightarrow> addSkill f = f)"
  by (auto simp: addResearchInterest_def addSkill_def)

lemma sample_form_value:
  "sample_form =
     \<lparr>formData = \<lparr>name = [], major = [], research_interests = [''Robotics''],
                   skills = [''Python'']\<rparr>,
      currentInterest = ''   '', currentSkill = '' Python '',
      availableResearchAreas = [], filteredResearchAreas = [],
      showResearchDropdown = True, loadingResearchAreas = True\<rparr>"
  by (simp add: sample_form_def form_run_def initialForm_def handleResearchInputChange_def
      filterResearchAreas_def addResearchInterest_def interestToAdd_def setCurrentSkill_def
      addSkill_def trim_def is_whitespace_def)

theorem add_tag_noop_witness:
  "addResearchInterest sample_form None = sample_form
   \<and> addResearchInterest sample_form (Some '' Robotics'') = sample_form
   \<and> addSkill sample_form = sample_form
   \<and> research_interests (formData (addResearchInterest sample_form (Some ''robotics'')))
        = [''Robotics'', ''robotics'']"
proof -
  have blank: "trim (interestToAdd sample_form None) = []"
    by (simp add: sample_form_value interestToAdd_def trim_def is_whitespace_def)
  have dup: "trim (interestToAdd sample_form (Some '' Robotics''))
               \<in> set (research_interests (formData sample_form))"
    by (simp add: sample_form_value interestToAdd_def trim_def is_whitespace_def)
  have dup_skill: "trim (currentSkill sample_form) \<in> set (skills (formData sample_form))"
    by (simp add: sample_form_value trim_def is_whitespace_def)
  have other_case:
    "research_interests (formData (addResearchInterest sample_form (Some ''robotics'')))
       = [''Robotics'', ''robotics'']"
    by (simp add: sample_form_value addResearchInterest_def interestToAdd_def trim_def
        is_whitespace_def)
  show ?thesis
    using add_tag_noop [of sample_form None] add_tag_noop [of sample_form "Some '' Robotics''"]
      blank dup dup_skill other_case
    by simp
qed

lemma count_list_filter_other:
  "t \<noteq> s \<Longrightarrow> count_list (filter (\<lambda>i. i \<noteq> s) xs) t = count_list xs t"
  by (induction xs) auto

lemma filter_absent: "s \<notin> set xs \<Longrightarrow> filter (\<lambda>i. i \<noteq> s) xs = xs"
  by (induction xs) auto

text \<open>
  C6. Removing a string that is not in the tag list leaves the form unchanged. In general
  the list after removal is the old list without the entries equal to the string: the
  string is gone, every other entry is kept as often as before, in the same order.
\<close>

theorem remove_tag_exact:
  "(s \<notin> set (research_interests (formData f)) \<longrightarrow> removeResearchInterest f s = f)
   \<and> (s \<notin> set (skills (formData f)) \<longrightarrow> removeSkill f s = f)
   \<and> set (research_interests (formData (removeResearchInterest f s)))
        = set (research_interests (formData f)) - {s}
   \<and> subseq (research_interests (formData (removeResearchInterest f s)))
        (research_interests (formData f))
   \<and> (\<forall>t. t \<noteq> s \<longrightarrow>
        count_list (research_interests (formData (removeResearchInterest f s))) t
          = count_list (research_interests (formData f)) t)
   \<and> set (skills (formData (removeSkill f s))) = set (skills (formData f)) - {s}
   \<and> subseq (skills (formData (removeSkill f s))) (skills (formData f))
   \<and> (\<forall>t. t \<noteq> s \<longrightarrow>
        count_list (skills (formData (removeSkill f s))) t
          = count_list (skills (formData f)) t)"
  by (auto simp: removeResearchInterest_def removeSkill_def filter_absent
      count_list_filter_other)

theorem remove_tag_exact_witness:
  "removeResearchInterest sample_form ''robotics'' = sample_form
   \<and> removeSkill sample_form ''Java'' = sample_form
   \<and> research_interests (formData (removeResearchInterest sample_form ''Robotics'')) = []
   \<and> skills (formData (removeSkill sample_form ''Python'')) = []"
proof -
  have absent: "''robotics'' \<notin> set (research_interests (formData sample_form))"
    by (simp add: sample_form_value)
  have absent_skill: "''Java'' \<notin> set (skills (formData sample_form))"
    by (simp add: sample_form_value)
  have only: "set (research_interests (formData sample_form)) - {''Robotics''} = {}"
    by (simp add: sample_form_value)
  have only_skill: "set (skills (formData sample_form)) - {''Python''} = {}"
    by (simp add: sample_form_value)
  show ?thesis
    using remove_tag_exact [of "''robotics''" sample_form]
      remove_tag_exact [of "''Java''" sample_form]
      remove_tag_exact [of "''Robotics''" sample_form]
      remove_tag_exact [of "''Python''" sample_form]
      absent absent_skill only only_skill
    by simp
qed


text \<open>
  C7. When the fetch of the research areas fails, the available and the filtered areas
  both become the fixed list of ten areas, the loading flag is cleared so that the interest
  input is enabled, the form data is untouched, and the failure goes to the console only.
\<close>

theorem areas_fallback:
  "fetchResearchAreas f (Inl err) =
     (f\<lparr>availableResearchAreas := fallbackAreas, filteredResearchAreas := fallbackAreas,
        loadingResearchAreas := False\<rparr>,
      [(''Failed to fetch research areas:'', err)])
   \<and> length fallbackAreas = 10 \<and> distinct fallbackAreas
   \<and> formData (fst (fetchResearchAreas f (Inl err))) = formData f
   \<and> \<not> loadingResearchAreas (fst (fetchResearchAreas f (Inl err)))
   \<and> \<not> interestInputDisabled (fst (fetchResearchAreas f (Inl err)))"
  by (simp add: fetchResearchAreas_def fallbackAreas_def interestInputDisabled_def)

theorem areas_fallback_witness:
  "fetchResearchAreas initialForm (Inl JsTypeError) =
     (\<lparr>formData = \<lparr>name = [], major = [], research_interests = [], skills = []\<rparr>,
       currentInterest = [], currentSkill = [],
       availableResearchAreas = fallbackAreas, filteredResearchAreas = fallbackAreas,
       showResearchDropdown = False, loadingResearchAreas = False\<rparr>,
      [(''Failed to fetch research areas:'', JsTypeError)])"
  using areas_fallback [of initialForm JsTypeError]
  by (simp add: initialForm_def)

section \<open>Properties: the API client\<close>

lemma handleResponse_detail:
  "\<not> ok r \<Longrightarrow> body r = Some (JObject props) \<Longrightarrow> map_of props ''detail'' = Some (JString d)
   \<Longrightarrow> handleResponse r = Inl (JsError d)"
  by (simp add: handleResponse_def)

lemma handleResponse_unparsable:
  "\<not> ok r \<Longrightarrow> body r = None
   \<Longrightarrow> handleResponse r = Inl (JsError (''HTTP error! status: '' @ show_nat (status r)))"
  by (simp add: handleResponse_def)

text \<open>
  C2. For every method of the client, a response with a status outside 200-299 makes the
  call reject: with the \<open>detail\<close> string of the error body when the body parses as JSON,
  and with \<open>HTTP error! status: N\<close> when the body does not parse.
\<close>

theorem non_2xx_rejects_with_detail:
  assumes "fetch (request_of m) = Inr r" and "\<not> ok r"
  shows "(body r = Some (JObject props) \<and> map_of props ''detail'' = Some (JString d)
            \<longrightarrow> api_call fetch m = Inl (JsError d))
         \<and> (body r = None
            \<longrightarrow> api_call fetch m
                  = Inl (JsError (''HTTP error! status: '' @ show_nat (status r))))"
  using assms by (simp add: api_call_def handleResponse_detail handleResponse_unparsable)

theorem non_2xx_rejects_with_detail_witness:
  "api_call (\<lambda>q. Inr \<lparr>status = 400,
                        body = Some (JObject [(''detail'', JString ''bad input'')])\<rparr>)
     (getProfessorRecommendations ann) = Inl (JsError ''bad input'')
   \<and> api_call (\<lambda>q. Inr \<lparr>status = 502, body = None\<rparr>) getResearchAreas
       = Inl (JsError ''HTTP error! status: 502'')"
proof -
  have digits: "show_nat 502 = ''502''"
    by (simp add: show_nat.simps digit_char_def)
  show ?thesis
    using non_2xx_rejects_with_detail
        [of "\<lambda>q. Inr \<lparr>status = 400,
                        body = Some (JObject [(''detail'', JString ''bad input'')])\<rparr>"
            "getProfessorRecommendations ann"
            "\<lparr>status = 400, body = Some (JObject [(''detail'', JString ''bad input'')])\<rparr>"
            "[(''detail'', JString ''bad input'')]" "''bad input''"]
      non_2xx_rejects_with_detail
        [of "\<lambda>q. Inr \<lparr>status = 502, body = None\<rparr>" getResearchAreas
            "\<lparr>status = 502, body = None\<rparr>"]
    by (simp add: ok_def digits)
qed

section \<open>Properties: the orchestrator\<close>

lemma render_Form_iff: "render a = FormView \<longleftrightarrow> state a = Form"
  by (cases "state a")
    (auto simp: render_def ProfessorDisplay_def shown_def split: option.splits if_splits)

lemma back_button_render:
  "back_button (render a) =
     (case state a of Form \<Rightarrow> None | Loading \<Rightarrow> None
      | Results \<Rightarrow> Some HandleBack | Error \<Rightarrow> Some HandleRetry)"
  by (cases "state a") (auto simp: render_def ProfessorDisplay_def shown_def)

lemma app_step_cases:
  "app_step (a, inflight) e =
     (case e of
        Submit u \<Rightarrow>
          if state a = Form
          then Some (a\<lparr>state := Loading, error := [], userInfo := Some u\<rparr>, inflight @ [u])
          else None
      | Settled s \<Rightarrow>
          if inflight \<noteq> [] then Some (handleUserSubmit_resume a s, tl inflight) else None
      | Click \<Rightarrow>
          (case state a of
             Form \<Rightarrow> None
           | Loading \<Rightarrow> None
           | Results \<Rightarrow> Some (a\<lparr>state := Form, error := [], professors := []\<rparr>, inflight)
           | Error \<Rightarrow>
               (case userInfo a of
                  Some u \<Rightarrow>
                    Some (a\<lparr>state := Loading, error := [], userInfo := Some u\<rparr>,
                          inflight @ [u])
                | None \<Rightarrow> Some (a\<lparr>state := Form\<rparr>, inflight))))"
  by (cases e; cases "state a")
    (auto simp: render_Form_iff back_button_render handleUserSubmit_begin_def handleBack_def
      handleRetry_def split: option.splits)

lemma resume_state:
  "state (handleUserSubmit_resume a s) = (case s of Inr r \<Rightarrow> Results | Inl x \<Rightarrow> Error)"
  by (simp add: handleUserSubmit_resume_def split: sum.splits)

lemma resume_userInfo: "userInfo (handleUserSubmit_resume a s) = userInfo a"
  by (simp add: handleUserSubmit_resume_def split: sum.splits)

lemma app_step_inv:
  assumes "app_inv c" and "app_step c e = Some c'"
  shows "app_inv c'"
proof -
  obtain a inflight where c: "c = (a, inflight)" by (cases c)
  show ?thesis
  proof (cases e)
    case (Submit u)
    with assms c show ?thesis
      by (auto simp: app_step_cases app_inv_def split: if_splits)
  next
    case (Settled s)
    with assms c have busy: "state a = Loading" "length inflight = 1"
      and info: "userInfo a \<noteq> None"
      and c': "c' = (handleUserSubmit_resume a s, tl inflight)"
      by (auto simp: app_step_cases app_inv_def split: if_splits)
    from busy have "tl inflight = []" by (cases inflight) auto
    with info c' show ?thesis
      by (auto simp: app_inv_def resume_state resume_userInfo split: sum.splits)
  next
    case Click
    with assms c show ?thesis
      by (cases "state a")
        (auto simp: app_step_cases app_inv_def split: if_splits option.splits)
  qed
qed

lemma app_run_inv:
  "app_inv c \<Longrightarrow> app_run c es = Some c' \<Longrightarrow> app_inv c'"
proof (induction es arbitrary: c)
  case Nil
  then show ?case by simp
next
  case (Cons e es)
  from Cons.prems(2) obtain d where step: "app_step c e = Some d" and rest: "app_run d es = Some c'"
    by (auto split: option.splits)
  from Cons.prems(1) step have "app_inv d" by (rule app_step_inv)
  then show ?case using rest by (rule Cons.IH)
qed

lemma app_inv_initial: "app_inv (initialApp, [])"
  by (simp add: app_inv_def initialApp_def)

lemma app_step_transition:
  assumes "app_inv c" and "app_step c e = Some c'"
  shows "app_transition (state (fst c)) e (state (fst c'))"
proof -
  obtain a inflight where c: "c = (a, inflight)" by (cases c)
  show ?thesis
  proof (cases e)
    case (Submit u)
    with assms c show ?thesis
      by (auto simp: app_step_cases app_transition_def split: if_splits)
  next
    case (Settled s)
    with assms c have "state a = Loading" and "c' = (handleUserSubmit_resume a s, tl inflight)"
      by (auto simp: app_step_cases app_inv_def split: if_splits)
    with c Settled show ?thesis
      by (cases s) (simp_all add: app_transition_def resume_state)
  next
    case Click
    with assms c show ?thesis
      by (cases "state a")
        (auto simp: app_step_cases app_inv_def app_transition_def split: option.splits)
  qed
qed

lemma app_step_retry:
  assumes "app_inv c" and "state (fst c) = Error" and "app_step c e = Some c'"
  shows "case userInfo (fst c) of
           Some u \<Rightarrow> snd c' = snd c @ [u] \<and> userInfo (fst c') = Some u
         | None \<Rightarrow> False"
proof -
  obtain a inflight where c: "c = (a, inflight)" by (cases c)
  from assms c have idle: "inflight = []" and stored: "userInfo a \<noteq> None"
    by (simp_all add: app_inv_def)
  show ?thesis
  proof (cases e)
    case (Submit u)
    with assms c show ?thesis by (simp add: app_step_cases)
  next
    case (Settled s)
    with assms c idle show ?thesis by (simp add: app_step_cases)
  next
    case Click
    with assms c stored show ?thesis
      by (auto simp: app_step_cases split: option.splits)
  qed
qed

text \<open>
  C1 (amended). From the initial page, every step changes the state by one of: form to
  loading on submit, loading to results on success, loading to error on a thrown error,
  results to form on back, and error to loading on retry. The state is one of the four
  values. A step out of the error state finds a submission stored and issues one call,
  carrying exactly that submission, which stays stored.
\<close>

theorem app_transitions:
  assumes "app_run (initialApp, []) es = Some c" and "app_step c e = Some c'"
  shows "app_transition (state (fst c)) e (state (fst c'))
         \<and> state (fst c') \<in> {Form, Loading, Results, Error}
         \<and> (state (fst c) = Error \<longrightarrow>
              (case userInfo (fst c) of
                 Some u \<Rightarrow> snd c' = snd c @ [u] \<and> userInfo (fst c') = Some u
               | None \<Rightarrow> False))"
proof -
  from app_inv_initial assms(1) have inv: "app_inv c" by (rule app_run_inv)
  then have "app_transition (state (fst c)) e (state (fst c'))"
    using assms(2) by (rule app_step_transition)
  moreover have "state (fst c') \<in> {Form, Loading, Results, Error}"
    by (cases "state (fst c')") simp_all
  moreover have "case userInfo (fst c) of
                   Some u \<Rightarrow> snd c' = snd c @ [u] \<and> userInfo (fst c') = Some u
                 | None \<Rightarrow> False"
    if "state (fst c) = Error"
    using inv that assms(2) by (rule app_step_retry)
  ultimately show ?thesis by simp
qed

lemma failed_app_reached:
  "app_run (initialApp, []) [Submit ann, Settled (Inl (ErrorInstance ''bad input''))]
     = Some (failed_app, [])"
  by (simp add: app_step_cases initialApp_def failed_app_def handleUserSubmit_resume_def)

lemma failed_app_retry:
  "app_step (failed_app, []) Click = Some (failed_app\<lparr>state := Loading, error := []\<rparr>, [ann])"
  by (simp add: app_step_cases failed_app_def)

theorem app_transitions_witness:
  "app_transition Error Click Loading
   \<and> state (failed_app\<lparr>state := Loading, error := []\<rparr>) \<in> {Form, Loading, Results, Error}
   \<and> snd (failed_app\<lparr>state := Loading, error := []\<rparr>, [ann]) = [] @ [ann]
   \<and> userInfo (failed_app\<lparr>state := Loading, error := []\<rparr>) = Some ann"
proof -
  have err: "state failed_app = Error" and stored: "userInfo failed_app = Some ann"
    by (simp_all add: failed_app_def)
  show ?thesis
    using app_transitions [OF failed_app_reached failed_app_retry] err stored
    by simp
qed

text \<open>
  C1 as stated fails: after a failed submission, the retry button takes the error state to
  loading, which the listed transitions do not contain.
\<close>

theorem retry_not_in_spec_table:
  "app_run (initialApp, []) [Submit ann, Settled (Inl (ErrorInstance ''bad input''))]
     = Some (failed_app, [])
   \<and> state failed_app = Error
   \<and> app_step (failed_app, []) Click
       = Some (failed_app\<lparr>state := Loading, error := []\<rparr>, [ann])
   \<and> state (failed_app\<lparr>state := Loading, error := []\<rparr>) = Loading
   \<and> \<not> spec_transition Error Click Loading"
proof (intro conjI)
  show "app_run (initialApp, []) [Submit ann, Settled (Inl (ErrorInstance ''bad input''))]
          = Some (failed_app, [])"
    by (rule failed_app_reached)
  show "app_step (failed_app, []) Click
          = Some (failed_app\<lparr>state := Loading, error := []\<rparr>, [ann])"
    by (rule failed_app_retry)
  show "state failed_app = Error"
    by (simp add: failed_app_def)
  show "state (failed_app\<lparr>state := Loading, error := []\<rparr>) = Loading"
    by simp
  show "\<not> spec_transition Error Click Loading"
    by (simp add: spec_transition_def)
qed

text \<open>
  C10. In the error state, retry with no stored submission goes to the form state and
  issues no call; with a stored submission it issues exactly one call, carrying that
  submission, and goes to loading.
\<close>

theorem retry_resubmits_stored:
  assumes "state a = Error"
  shows "(userInfo a = None \<longrightarrow>
            handleRetry a = (a\<lparr>state := Form\<rparr>, [])
            \<and> app_step (a, inflight) Click = Some (a\<lparr>state := Form\<rparr>, inflight))
         \<and> (userInfo a = Some u \<longrightarrow>
            handleRetry a = handleUserSubmit_begin a u
            \<and> snd (handleRetry a) = [u]
            \<and> app_step (a, inflight) Click
                = Some (a\<lparr>state := Loading, error := [], userInfo := Some u\<rparr>, inflight @ [u]))"
  using assms
  by (simp add: handleRetry_def handleUserSubmit_begin_def app_step_cases)

theorem retry_resubmits_stored_witness:
  "handleRetry fresh_error_app = (fresh_error_app\<lparr>state := Form\<rparr>, [])
   \<and> app_step (fresh_error_app, []) Click = Some (fresh_error_app\<lparr>state := Form\<rparr>, [])
   \<and> snd (handleRetry failed_app) = [ann]
   \<and> app_step (failed_app, []) Click
       = Some (failed_app\<lparr>state := Loading, error := [], userInfo := Some ann\<rparr>, [ann])"
proof -
  have err: "state fresh_error_app = Error" "state failed_app = Error"
    by (simp_all add: fresh_error_app_def failed_app_def)
  have stored: "userInfo fresh_error_app = None" "userInfo failed_app = Some ann"
    by (simp_all add: fresh_error_app_def failed_app_def)
  show ?thesis
    using retry_resubmits_stored [OF err(1), where u = ann and inflight = "[]"]
      retry_resubmits_stored [OF err(2), where u = ann and inflight = "[]"] stored
    by (simp add: handleUserSubmit_begin_def del: app_step.simps)
qed

section \<open>Properties: the result display\<close>

lemma render_after_success:
  "render (handleUserSubmit_resume a (Inr r)) =
     (if recommendations r = [] then NoResultsView (Some HandleBack)
      else CardsView (length (recommendations r)) (map professor_card (recommendations r))
             (Some HandleBack))"
  by (simp add: handleUserSubmit_resume_def render_def ProfessorDisplay_def shown_def)

text \<open>
  C3 (amended). After a successful response the display shows the no-results branch,
  with the back action, when the list of recommendations is empty, and the cards
  otherwise; \<open>match_count\<close> is never read, so changing it changes nothing.
\<close>

theorem no_results_by_list_alone:
  "(recommendations r = [] \<longrightarrow>
      render (handleUserSubmit_resume a (Inr r)) = NoResultsView (Some HandleBack))
   \<and> (recommendations r \<noteq> [] \<longrightarrow>
      render (handleUserSubmit_resume a (Inr r))
        = CardsView (length (recommendations r)) (map professor_card (recommendations r))
            (Some HandleBack))
   \<and> handleUserSubmit_resume a (Inr (r\<lparr>match_count := k\<rparr>))
        = handleUserSubmit_resume a (Inr r)"
  by (simp add: render_after_success) (simp add: handleUserSubmit_resume_def)

theorem no_results_by_list_alone_witness:
  "render (handleUserSubmit_resume initialApp (Inr \<lparr>recommendations = [], match_count = 0\<rparr>))
     = NoResultsView (Some HandleBack)
   \<and> render (handleUserSubmit_resume initialApp (Inr \<lparr>recommendations = [], match_count = 3\<rparr>))
     = NoResultsView (Some HandleBack)
   \<and> render (handleUserSubmit_resume initialApp (Inr zero_count_one_professor))
     = CardsView 1 [professor_card prof_few] (Some HandleBack)"
  using no_results_by_list_alone [of "\<lparr>recommendations = [], match_count = 0\<rparr>" initialApp]
    no_results_by_list_alone [of "\<lparr>recommendations = [], match_count = 3\<rparr>" initialApp]
    no_results_by_list_alone [of zero_count_one_professor initialApp]
  by (simp add: zero_count_one_professor_def)

text \<open>
  C3 as stated fails: a response with \<open>match_count\<close> 0 and one recommendation shows a
  card, not the no-results branch.
\<close>

theorem zero_match_count_shows_cards:
  "match_count zero_count_one_professor = 0
   \<and> app_run (initialApp, []) [Submit ann, Settled (Inr zero_count_one_professor)]
       = Some (\<lparr>state = Results, professors = [prof_few], error = [], userInfo = Some ann\<rparr>, [])
   \<and> render \<lparr>state = Results, professors = [prof_few], error = [], userInfo = Some ann\<rparr>
       = CardsView 1 [professor_card prof_few] (Some HandleBack)
   \<and> render \<lparr>state = Results, professors = [prof_few], error = [], userInfo = Some ann\<rparr>
       \<noteq> NoResultsView (Some HandleBack)"
  by (simp add: zero_count_one_professor_def initialApp_def render_def ProfessorDisplay_def
      shown_def handleUserSubmit_begin_def handleUserSubmit_resume_def)

lemma render_results:
  "state a = Results \<Longrightarrow> cards_of (render a) = map professor_card (professors a)"
  by (simp add: render_def ProfessorDisplay_def shown_def)

lemma take_min_length: "take (min n (length xs)) xs = take n xs"
  by (simp add: min_def)

text \<open>
  C8. A successful response leads to the results state with the professors of the
  response. In the results state there is one card per professor, in order; a card shows the
  first \<open>min 5 (length)\<close> research interests of its professor, and the tag \<open>+N more\<close>
  with \<open>N = length - 5\<close> exactly when there are more than five.
\<close>

theorem cards_show_first_five:
  assumes "state a = Results"
  shows "state (handleUserSubmit_resume b (Inr r)) = Results
         \<and> professors (handleUserSubmit_resume b (Inr r)) = recommendations r
         \<and> length (cards_of (render a)) = length (professors a)
         \<and> (\<forall>i < length (professors a).
              interest_tags (cards_of (render a) ! i)
                = take (min 5 (length (ProfessorInfo.research_interests (professors a ! i))))
                    (ProfessorInfo.research_interests (professors a ! i))
              \<and> more_tag (cards_of (render a) ! i)
                = (if length (ProfessorInfo.research_interests (professors a ! i)) > 5
                   then Some (''+'' @ show_nat
                           (length (ProfessorInfo.research_interests (professors a ! i)) - 5)
                           @ '' more'')
                   else None))"
  using assms
  by (simp add: render_results professor_card_def take_min_length handleUserSubmit_resume_def)


lemma two_professors_reached:
  "app_run (initialApp, []) [Submit ann, Settled (Inr two_professors)]
     = Some (\<lparr>state = Results, professors = [prof_many, prof_few], error = [],
              userInfo = Some ann\<rparr>, [])"
  by (simp add: two_professors_def initialApp_def render_def
      handleUserSubmit_begin_def handleUserSubmit_resume_def)

theorem cards_show_first_five_witness:
  "app_run (initialApp, []) [Submit ann, Settled (Inr two_professors)]
     = Some (\<lparr>state = Results, professors = [prof_many, prof_few], error = [],
              userInfo = Some ann\<rparr>, [])
   \<and> length (cards_of (render \<lparr>state = Results, professors = [prof_many, prof_few], error = [],
              userInfo = Some ann\<rparr>)) = 2
   \<and> map interest_tags (cards_of (render \<lparr>state = Results, professors = [prof_many, prof_few],
              error = [], userInfo = Some ann\<rparr>))
       = [[''a'', ''b'', ''c'', ''d'', ''e''], [''Machine Learning'']]
   \<and> map more_tag (cards_of (render \<lparr>state = Results, professors = [prof_many, prof_few],
              error = [], userInfo = Some ann\<rparr>))
       = [Some ''+2 more'', None]"
proof -
  let ?a = "\<lparr>state = Results, professors = [prof_many, prof_few], error = [],
              userInfo = Some ann\<rparr>"
  have results: "state ?a = Results" by simp
  have digits: "show_nat (Suc (Suc 0)) = ''2''"
    by (simp add: show_nat.simps digit_char_def)
  from cards_show_first_five [OF results]
  have len: "length (cards_of (render ?a)) = 2"
    and tags: "\<And>i. i < 2 \<Longrightarrow> interest_tags (cards_of (render ?a) ! i)
                = take (min 5 (length (ProfessorInfo.research_interests ([prof_many, prof_few] ! i))))
                    (ProfessorInfo.research_interests ([prof_many, prof_few] ! i))"
    and more: "\<And>i. i < 2 \<Longrightarrow> more_tag (cards_of (render ?a) ! i)
                = (if length (ProfessorInfo.research_interests ([prof_many, prof_few] ! i)) > 5
                   then Some (''+'' @ show_nat
                           (length (ProfessorInfo.research_interests ([prof_many, prof_few] ! i)) - 5)
                           @ '' more'')
                   else None)"
    by simp_all
  from len obtain c0 c1 where cs: "cards_of (render ?a) = [c0, c1]"
    by (auto simp: length_Suc_conv numeral_2_eq_2)
  from tags [of 0] tags [of 1] more [of 0] more [of 1] cs digits
  have shown_cards:
    "length (cards_of (render ?a)) = 2
     \<and> map interest_tags (cards_of (render ?a))
         = [[''a'', ''b'', ''c'', ''d'', ''e''], [''Machine Learning'']]
     \<and> map more_tag (cards_of (render ?a)) = [Some ''+2 more'', None]"
    by (simp add: prof_many_def prof_few_def)
  show ?thesis
    by (rule conjI [OF two_professors_reached shown_cards])
qed

end
